theory Spec2Isabelle
  imports Complex_Main "HOL-Library.Sublist"
begin

section \<open>Final classification\<close>

text \<open>
  The five labels of \<open>classify\<close>. A Python string is modelled by its UTF-8 bytes: each
  label starts with a four-byte pictograph (U+1F525, U+1F7E2, U+1F7E1, U+1F53B, U+1F6D1)
  and a space, followed by the label's name.
\<close>

definition label_strong_bullish :: string where
  "label_strong_bullish = [CHR 0xF0, CHR 0x9F, CHR 0x94, CHR 0xA5] @ '' STRONG BULLISH''"

definition label_bullish :: string where
  "label_bullish = [CHR 0xF0, CHR 0x9F, CHR 0x9F, CHR 0xA2] @ '' BULLISH''"

definition label_neutral :: string where
  "label_neutral = [CHR 0xF0, CHR 0x9F, CHR 0x9F, CHR 0xA1] @ '' NEUTRAL''"

definition label_bearish :: string where
  "label_bearish = [CHR 0xF0, CHR 0x9F, CHR 0x94, CHR 0xBB] @ '' BEARISH''"

definition label_strong_bearish :: string where
  "label_strong_bearish = [CHR 0xF0, CHR 0x9F, CHR 0x9B, CHR 0x91] @ '' STRONG BEARISH''"

definition labels :: "string list" where
  "labels = [label_strong_bullish, label_bullish, label_neutral, label_bearish,
     label_strong_bearish]"

text \<open>\<open>classify(score)\<close>: four guarded returns in descending order, then the default.\<close>

definition classify :: "real \<Rightarrow> string" where
  "classify score =
     (if score \<ge> 60 then label_strong_bullish
      else if score \<ge> 40 then label_bullish
      else if score \<ge> 25 then label_neutral
      else if score \<ge> 10 then label_bearish
      else label_strong_bearish)"

section \<open>Double-precision arithmetic\<close>

text \<open>
  Python's \<open>float\<close> is IEEE-754 binary64. A finite double is modelled by the real number
  it denotes, and every operation rounds the exact result to the nearest double, ties to
  the even significand. The exponent range is not bounded here: the scores of this
  program stay far from overflow and from the subnormal range. Infinities, NaN and the
  sign of zero are not part of this model.
\<close>

definition round_half_even :: "real \<Rightarrow> int" where
  "round_half_even x =
     (let n = \<lfloor>x\<rfloor>; d = x - of_int n
      in if d < 1/2 then n else if d > 1/2 then n + 1 else if even n then n else n + 1)"

text \<open>The binary exponent \<open>e\<close> of a non-zero \<open>x\<close>: \<open>2^e \<le> |x| < 2^(e+1)\<close>.\<close>

definition expo :: "real \<Rightarrow> int" where
  "expo x = \<lfloor>log 2 \<bar>x\<bar>\<rfloor>"

text \<open>Rounding to 53 significant bits.\<close>

definition b64 :: "real \<Rightarrow> real" where
  "b64 x =
     (let u = 2 powi (expo x - 52)
      in sgn x * (of_int (round_half_even (\<bar>x\<bar> / u)) * u))"

definition fadd :: "real \<Rightarrow> real \<Rightarrow> real" where
  "fadd a b = b64 (a + b)"

definition fmul :: "real \<Rightarrow> real \<Rightarrow> real" where
  "fmul a b = b64 (a * b)"

definition fdiv :: "real \<Rightarrow> real \<Rightarrow> real" where
  "fdiv a b = b64 (a / b)"

text \<open>
  \<open>round(x, ndigits)\<close> on a float: the decimal with \<open>ndigits\<close> places nearest to the
  exact value of \<open>x\<close> (ties to even), converted back to the nearest double.
\<close>

definition py_round :: "real \<Rightarrow> nat \<Rightarrow> real" where
  "py_round x ndigits = b64 (of_int (round_half_even (x * 10 ^ ndigits)) / 10 ^ ndigits)"

text \<open>\<open>round(n, ndigits)\<close> on an \<open>int\<close> with \<open>ndigits \<ge> 0\<close> returns the \<open>int\<close> unchanged.\<close>

definition py_round_int :: "int \<Rightarrow> nat \<Rightarrow> int" where
  "py_round_int n ndigits = n"

section \<open>Strings\<close>

text \<open>
  \<open>str.lower\<close>, on the UTF-8 bytes of the string. The letters A to Z become a to z.
  Two characters outside ASCII have a lower-case form that holds an ASCII letter: the
  Kelvin sign U+212A becomes \<open>k\<close>, and the dotted capital I U+0130 becomes \<open>i\<close> followed by
  the combining dot U+0307. Every other character outside ASCII lower-cases to one or
  more characters outside ASCII; the model keeps the bytes of such a character in the
  place of its lower-case form, which leaves every occurrence of an ASCII word as it is
  in the program.
\<close>

definition ascii_uppercase :: string where
  "ascii_uppercase = ''ABCDEFGHIJKLMNOPQRSTUVWXYZ''"

definition ascii_lowercase :: string where
  "ascii_lowercase = ''abcdefghijklmnopqrstuvwxyz''"

definition lower_char :: "char \<Rightarrow> char" where
  "lower_char c =
     (case map_of (zip ascii_uppercase ascii_lowercase) c of None \<Rightarrow> c | Some l \<Rightarrow> l)"

definition kelvin_sign :: string where
  "kelvin_sign = [CHR 0xE2, CHR 0x84, CHR 0xAA]"

definition capital_i_dot :: string where
  "capital_i_dot = [CHR 0xC4, CHR 0xB0]"

definition combining_dot :: string where
  "combining_dot = [CHR 0xCC, CHR 0x87]"

function lower :: "string \<Rightarrow> string" where
  "lower [] = []"
| "lower (c # cs) =
     (if prefix kelvin_sign (c # cs) then CHR ''k'' # lower (drop 2 cs)
      else if prefix capital_i_dot (c # cs) then CHR ''i'' # combining_dot @ lower (drop 1 cs)
      else lower_char c # lower cs)"
  by pat_completeness auto
termination
  by (relation "measure length") auto

text \<open>\<open>word in text\<close>: \<open>word\<close> occurs in \<open>text\<close> as a contiguous substring.\<close>

fun contains :: "string \<Rightarrow> string \<Rightarrow> bool" where
  "contains [] word = (word = [])"
| "contains (c # cs) word = (prefix word (c # cs) \<or> contains cs word)"

text \<open>\<open>sep.join(parts)\<close>.\<close>

fun join :: "string \<Rightarrow> string list \<Rightarrow> string" where
  "join sep [] = []"
| "join sep [x] = x"
| "join sep (x # y # ys) = x @ sep @ join sep (y # ys)"

text \<open>\<open>str(n)\<close> for an \<open>int\<close>: decimal digits, with a minus sign when negative.\<close>

definition digit_char :: "nat \<Rightarrow> char" where
  "digit_char d = ''0123456789'' ! d"

fun str_nat :: "nat \<Rightarrow> string" where
  "str_nat n =
     (if n < 10 then [digit_char n] else str_nat (n div 10) @ [digit_char (n mod 10)])"

declare str_nat.simps [simp del]

definition str_int :: "int \<Rightarrow> string" where
  "str_int n = (if n < 0 then CHR ''-'' # str_nat (nat (- n)) else str_nat (nat n))"

section \<open>Lightweight sentiment analysis\<close>

definition positive_words :: "string list" where
  "positive_words =
     [''beats'', ''soars'', ''growth'', ''jump'', ''rises'', ''strong'', ''profit'']"

definition negative_words :: "string list" where
  "negative_words =
     [''falls'', ''misses'', ''drop'', ''weak'', ''loss'', ''cuts'', ''bad'']"

text \<open>
  \<open>sentiment_score(text)\<close>: \<open>sum(word in text for word in words)\<close> adds one for each
  word of the list that the lower-cased text contains.
\<close>

definition sentiment_score :: "string \<Rightarrow> int" where
  "sentiment_score text =
     (let text = lower text;
          pos = (\<Sum>word\<leftarrow>positive_words. of_bool (contains text word));
          neg = (\<Sum>word\<leftarrow>negative_words. of_bool (contains text word))
      in pos - neg)"

section \<open>The data providers\<close>

text \<open>
  The exceptions that the scorers can meet: a provider's own failure (network, parsing,
  a changed format), and the lookup failures of the data frames.
\<close>

datatype exn = ProviderError string | KeyError string | IndexError | ValueError

text \<open>A value of a numeric series: a number or the missing value.\<close>

datatype cell = Num real | NaN

text \<open>\<open>a > b\<close> on cells: every comparison with the missing value is false.\<close>

fun gt :: "cell \<Rightarrow> cell \<Rightarrow> bool" where
  "gt (Num a) (Num b) = (a > b)"
| "gt _ _ = False"

text \<open>
  A data frame as its labelled series, all of one length: the rows of the financial
  statement (one value per period, latest first), or the columns of the price history
  (one value per day, latest last).
\<close>

type_synonym frame = "(string \<times> cell list) list"

text \<open>\<open>frame.empty\<close>: one of the two axes has length zero.\<close>

definition frame_empty :: "frame \<Rightarrow> bool" where
  "frame_empty fr = (fr = [] \<or> list_ex (\<lambda>s. snd s = []) fr)"

text \<open>
  \<open>frame.loc[label]\<close> and \<open>frame[label]\<close>: a missing label raises \<open>KeyError\<close>. A label
  that occurs more than once selects a frame instead of a series, and the comparison
  of the scorer then raises \<open>ValueError\<close> (the truth value of a series is ambiguous).
\<close>

definition loc :: "frame \<Rightarrow> string \<Rightarrow> exn + cell list" where
  "loc fr label =
     (case filter (\<lambda>s. fst s = label) fr of
        [] \<Rightarrow> Inl (KeyError label)
      | [s] \<Rightarrow> Inr (snd s)
      | _ \<Rightarrow> Inl ValueError)"

text \<open>\<open>series.iloc[i]\<close> for \<open>i \<ge> 0\<close>, and \<open>series.iloc[-1]\<close>.\<close>

definition iloc :: "cell list \<Rightarrow> nat \<Rightarrow> exn + cell" where
  "iloc xs i = (if i < length xs then Inr (xs ! i) else Inl IndexError)"

definition iloc_last :: "cell list \<Rightarrow> exn + cell" where
  "iloc_last xs = (if xs = [] then Inl IndexError else Inr (last xs))"

text \<open>The numbers of a window, without its missing values.\<close>

definition numbers :: "cell list \<Rightarrow> real list" where
  "numbers win = concat (map (\<lambda>c. case c of Num x \<Rightarrow> [x] | NaN \<Rightarrow> []) win)"

text \<open>
  \<open>series.rolling(w).mean()\<close>: at each position the missing value unless the window of
  the last \<open>w\<close> values ending there holds \<open>w\<close> numbers, and otherwise the mean of the
  window as the library computes it in double precision. The library keeps running
  sums while the window slides, so the double it returns at a position is not the exact
  mean, may depend on the earlier values of the series, and is not the same in every
  version of the library: \<open>mean_f64 w xs i\<close> stands for that double.
\<close>

definition rolling_mean ::
  "(nat \<Rightarrow> cell list \<Rightarrow> nat \<Rightarrow> real) \<Rightarrow> nat \<Rightarrow> cell list \<Rightarrow> cell list" where
  "rolling_mean mean_f64 w xs =
     map (\<lambda>i. if length (numbers (drop (Suc i - w) (take (Suc i) xs))) < w then NaN
              else Num (mean_f64 w xs i))
       [0..<length xs]"

text \<open>
  What the program takes from outside: \<open>requests.get(url, ...).text\<close>, the texts of the
  \<open>h3\<close> elements of a page in document order, \<open>yf.Ticker(ticker).financials\<close> and
  \<open>yf.download(ticker, period="3mo")\<close>, each of which may raise, and the doubles of the
  library's rolling mean.
\<close>

record providers =
  requests_get :: "string \<Rightarrow> exn + string"
  h3_texts :: "string \<Rightarrow> exn + string list"
  financials :: "string \<Rightarrow> exn + frame"
  download :: "string \<Rightarrow> exn + frame"
  rolling_mean_f64 :: "nat \<Rightarrow> cell list \<Rightarrow> nat \<Rightarrow> real"

section \<open>Headlines\<close>

definition quote_url :: "string \<Rightarrow> string" where
  "quote_url tkr = ''https://finance.yahoo.com/quote/'' @ tkr @ ''?p='' @ tkr"

text \<open>The body of the \<open>try\<close> block of \<open>fetch_news\<close>; \<open>find_all("h3", limit=5)\<close> keeps the first five.\<close>

definition fetch_news_try :: "providers \<Rightarrow> string \<Rightarrow> exn + string list" where
  "fetch_news_try env tkr =
     (case requests_get env (quote_url tkr) of
        Inl e \<Rightarrow> Inl e
      | Inr html \<Rightarrow>
          (case h3_texts env html of
             Inl e \<Rightarrow> Inl e
           | Inr articles \<Rightarrow> Inr (take 5 articles)))"

definition fetch_news :: "providers \<Rightarrow> string \<Rightarrow> string list" where
  "fetch_news env tkr = (case fetch_news_try env tkr of Inl e \<Rightarrow> [] | Inr hs \<Rightarrow> hs)"

section \<open>Fundamental score\<close>

definition fundamental_score_try :: "providers \<Rightarrow> string \<Rightarrow> exn + int \<times> string" where
  "fundamental_score_try env tkr =
     (case financials env tkr of
        Inl e \<Rightarrow> Inl e
      | Inr fin \<Rightarrow>
          if frame_empty fin then Inr (0, ''No financials'')
          else
            (case loc fin ''Total Revenue'' of
               Inl e \<Rightarrow> Inl e
             | Inr rev_row \<Rightarrow>
            (case loc fin ''Net Income'' of
               Inl e \<Rightarrow> Inl e
             | Inr ni_row \<Rightarrow>
            (let rev = take 2 rev_row; ni = take 2 ni_row in
            (case iloc rev 0 of Inl e \<Rightarrow> Inl e | Inr rev0 \<Rightarrow>
            (case iloc rev 1 of Inl e \<Rightarrow> Inl e | Inr rev1 \<Rightarrow>
            (let (score, reason) =
                   (if gt rev0 rev1 then (0 + 10, [] @ [''Revenue growing''])
                    else (0 - 10, [] @ [''Revenue declining'']))
             in
            (case iloc ni 0 of Inl e \<Rightarrow> Inl e | Inr ni0 \<Rightarrow>
            (case iloc ni 1 of Inl e \<Rightarrow> Inl e | Inr ni1 \<Rightarrow>
            (let (score, reason) =
                   (if gt ni0 ni1 then (score + 10, reason @ [''Net income improving''])
                    else (score - 10, reason @ [''Net income declining'']))
             in Inr (score, join '', '' reason)))))))))))"

definition fundamental_score :: "providers \<Rightarrow> string \<Rightarrow> int \<times> string" where
  "fundamental_score env tkr =
     (case fundamental_score_try env tkr of
        Inl e \<Rightarrow> (0, ''Financial analysis error'')
      | Inr r \<Rightarrow> r)"

section \<open>Trend score\<close>

definition trend_score_try :: "providers \<Rightarrow> string \<Rightarrow> exn + int \<times> string" where
  "trend_score_try env tkr =
     (case download env tkr of
        Inl e \<Rightarrow> Inl e
      | Inr data \<Rightarrow>
          if frame_empty data then Inr (0, ''No data'')
          else
            (case loc data ''Close'' of
               Inl e \<Rightarrow> Inl e
             | Inr close \<Rightarrow>
            (case iloc_last close of Inl e \<Rightarrow> Inl e | Inr price \<Rightarrow>
            (case iloc_last (rolling_mean (rolling_mean_f64 env) 20 close) of Inl e \<Rightarrow> Inl e | Inr ma20 \<Rightarrow>
               if gt price ma20 then Inr (10, ''Uptrend'') else Inr (- 10, ''Downtrend'')))))"

definition trend_score :: "providers \<Rightarrow> string \<Rightarrow> int \<times> string" where
  "trend_score env tkr =
     (case trend_score_try env tkr of Inl e \<Rightarrow> (0, ''Trend error'') | Inr r \<Rightarrow> r)"

section \<open>The scanner\<close>

text \<open>The three sliders, each an integer from 0 to 50.\<close>

record weights =
  w_news :: int
  w_fund :: int
  w_trend :: int

definition weights_ok :: "weights \<Rightarrow> bool" where
  "weights_ok w =
     (0 \<le> w_news w \<and> w_news w \<le> 50 \<and> 0 \<le> w_fund w \<and> w_fund w \<le> 50 \<and>
      0 \<le> w_trend w \<and> w_trend w \<le> 50)"

record scan_result =
  ticker :: string
  news :: int
  fund :: int
  fund_reason :: string
  trend :: int
  trend_reason :: string
  final_score :: real
  signal :: string

text \<open>
  \<open>final\<close>: each weight is divided by 50 in floating point, multiplied with its integer
  score, and the three products are added from left to right.
\<close>

definition final :: "int \<Rightarrow> int \<Rightarrow> int \<Rightarrow> weights \<Rightarrow> real" where
  "final news_score f_score t_score w =
     fadd
       (fadd (fmul (of_int news_score) (fdiv (of_int (w_news w)) 50))
             (fmul (of_int f_score) (fdiv (of_int (w_fund w)) 50)))
       (fmul (of_int t_score) (fdiv (of_int (w_trend w)) 50))"

text \<open>One turn of the loop over the tickers: the record that is appended.\<close>

definition scan_ticker :: "providers \<Rightarrow> weights \<Rightarrow> string \<Rightarrow> scan_result" where
  "scan_ticker env w tkr =
     (let headlines = fetch_news env tkr;
          news_score = (\<Sum>n\<leftarrow>headlines. sentiment_score n) * 5;
          (f_score, f_reason) = fundamental_score env tkr;
          (t_score, t_reason) = trend_score env tkr;
          fin = final news_score f_score t_score w
      in \<lparr>ticker = tkr,
          news = py_round_int news_score 2,
          fund = py_round_int f_score 2,
          fund_reason = f_reason,
          trend = py_round_int t_score 2,
          trend_reason = t_reason,
          final_score = py_round fin 2,
          signal = classify fin\<rparr>)"

fun scan_loop :: "providers \<Rightarrow> weights \<Rightarrow> string list \<Rightarrow> scan_result list \<Rightarrow> scan_result list" where
  "scan_loop env w [] results = results"
| "scan_loop env w (tkr # tickers) results =
     scan_loop env w tickers (results @ [scan_ticker env w tkr])"

definition scan :: "providers \<Rightarrow> weights \<Rightarrow> string list \<Rightarrow> scan_result list" where
  "scan env w tickers = scan_loop env w tickers []"

section \<open>Report generator\<close>

text \<open>
  \<open>str_float\<close> stands for Python's \<open>str\<close> on a float (the shortest decimal that reads
  back as the same double); it is a parameter of the report. The dash of the score
  line is U+2014, three bytes in UTF-8.
\<close>

definition report_title :: string where
  "report_title = ''<h1>Market Scanner Report</h1>''"

definition em_dash :: string where
  "em_dash = [CHR 0xE2, CHR 0x80, CHR 0x94]"

fun generate_report_loop :: "(real \<Rightarrow> string) \<Rightarrow> string \<Rightarrow> scan_result list \<Rightarrow> string" where
  "generate_report_loop str_float html [] = html"
| "generate_report_loop str_float html (r # results) =
     (let html = html @ ''<h3>'' @ ticker r @ ''</h3>'';
          html = html @ ''<p>Score: '' @ str_float (final_score r) @ '' '' @ em_dash @ '' ''
                   @ signal r @ ''</p>'';
          html = html @ ''<p>News Score: '' @ str_int (news r) @ ''</p>'';
          html = html @ ''<p>Fundamentals: '' @ str_int (fund r) @ '' ('' @ fund_reason r
                   @ '')</p>'';
          html = html @ ''<p>Trend: '' @ str_int (trend r) @ '' ('' @ trend_reason r
                   @ '')</p>'';
          html = html @ ''<hr>''
      in generate_report_loop str_float html results)"

definition generate_report :: "(real \<Rightarrow> string) \<Rightarrow> scan_result list \<Rightarrow> string" where
  "generate_report str_float results = generate_report_loop str_float report_title results"

section \<open>Reference definitions\<close>

text \<open>
  The \<open>n\<close>-period simple moving average at the latest position of a series, as the
  specification words it: the moving average that the library computed there when the
  series has \<open>n\<close> values and none of the last \<open>n\<close> is missing, and the missing value
  otherwise. \<open>exact_mean n xs i\<close> is the mean of the \<open>n\<close> values that end at position \<open>i\<close>,
  taken exactly.
\<close>

definition the_num :: "cell \<Rightarrow> real" where
  "the_num c = (case c of Num x \<Rightarrow> x | NaN \<Rightarrow> 0)"

definition exact_mean :: "nat \<Rightarrow> cell list \<Rightarrow> nat \<Rightarrow> real" where
  "exact_mean n xs i = (\<Sum>c\<leftarrow>drop (Suc i - n) (take (Suc i) xs). the_num c) / of_nat n"

definition sma_last :: "(nat \<Rightarrow> cell list \<Rightarrow> nat \<Rightarrow> real) \<Rightarrow> nat \<Rightarrow> cell list \<Rightarrow> cell" where
  "sma_last mean_f64 n xs =
     (if n \<le> length xs \<and> list_all (\<lambda>c. c \<noteq> NaN) (drop (length xs - n) xs)
      then Num (mean_f64 n xs (length xs - 1))
      else NaN)"

text \<open>
  The block of the report for one result as the specification lists it: ticker header,
  final score with label, news score, fundamental score with reason, trend score with
  reason, separator.
\<close>

definition report_block :: "(real \<Rightarrow> string) \<Rightarrow> scan_result \<Rightarrow> string" where
  "report_block str_float r =
     ''<h3>'' @ ticker r @ ''</h3>''
     @ ''<p>Score: '' @ str_float (final_score r) @ '' '' @ em_dash @ '' '' @ signal r @ ''</p>''
     @ ''<p>News Score: '' @ str_int (news r) @ ''</p>''
     @ ''<p>Fundamentals: '' @ str_int (fund r) @ '' ('' @ fund_reason r @ '')</p>''
     @ ''<p>Trend: '' @ str_int (trend r) @ '' ('' @ trend_reason r @ '')</p>''
     @ ''<hr>''"

text \<open>
  Reading a report back: the contents of its header elements in document order, each
  taken from behind an opening \<open><h3>\<close> up to the next tag. A result is free of markup
  when none of its rendered fields holds the character that opens a tag.
\<close>

fun h3_headers :: "string \<Rightarrow> string list" where
  "h3_headers [] = []"
| "h3_headers (c # cs) =
     (if prefix ''<h3>'' (c # cs)
      then takeWhile (\<lambda>x. x \<noteq> CHR ''<'') (drop 3 cs) # h3_headers cs
      else h3_headers cs)"

definition markup_free :: "(real \<Rightarrow> string) \<Rightarrow> scan_result \<Rightarrow> bool" where
  "markup_free str_float r =
     (CHR ''<'' \<notin> set (ticker r) \<and> CHR ''<'' \<notin> set (str_float (final_score r)) \<and>
      CHR ''<'' \<notin> set (signal r) \<and> CHR ''<'' \<notin> set (fund_reason r) \<and>
      CHR ''<'' \<notin> set (trend_reason r))"

section \<open>Example environments\<close>

text \<open>
  The end-to-end scenario: one headline with one positive term, revenue and net income
  both above the prior year, and 21 rising closes, so that the latest close (120) lies
  above the mean of the last 20 (110.5). The closes of the examples are small whole
  numbers: their sums and means are exact in double precision, so the library's rolling
  mean is the exact mean there.
\<close>

definition aapl_financials :: frame where
  "aapl_financials =
     [(''Total Revenue'', [Num 400, Num 380, Num 390]),
      (''Net Income'', [Num 100, Num 95, Num 99])]"

definition aapl_closes :: "cell list" where
  "aapl_closes =
     [Num 100, Num 101, Num 102, Num 103, Num 104, Num 105, Num 106, Num 107, Num 108,
      Num 109, Num 110, Num 111, Num 112, Num 113, Num 114, Num 115, Num 116, Num 117,
      Num 118, Num 119, Num 120]"

definition aapl_env :: providers where
  "aapl_env =
     \<lparr>requests_get = (\<lambda>url. Inr ''<html><h3>AAPL beats estimates</h3></html>''),
      h3_texts = (\<lambda>html. Inr [''AAPL beats estimates'']),
      financials = (\<lambda>tkr. Inr aapl_financials),
      download = (\<lambda>tkr. Inr [(''Close'', aapl_closes)]),
      rolling_mean_f64 = exact_mean\<rparr>"

definition default_weights :: weights where
  "default_weights = \<lparr>w_news = 20, w_fund = 20, w_trend = 20\<rparr>"

text \<open>Every provider fails.\<close>

definition offline_env :: providers where
  "offline_env =
     \<lparr>requests_get = (\<lambda>url. Inl (ProviderError ''connection refused'')),
      h3_texts = (\<lambda>html. Inl (ProviderError ''no document'')),
      financials = (\<lambda>tkr. Inl (ProviderError ''connection refused'')),
      download = (\<lambda>tkr. Inl (ProviderError ''connection refused'')),
      rolling_mean_f64 = exact_mean\<rparr>"

text \<open>The providers answer, with frames that hold no data.\<close>

definition empty_env :: providers where
  "empty_env =
     \<lparr>requests_get = (\<lambda>url. Inr ''<html></html>''),
      h3_texts = (\<lambda>html. Inr []),
      financials = (\<lambda>tkr. Inr []),
      download = (\<lambda>tkr. Inr []),
      rolling_mean_f64 = exact_mean\<rparr>"

text \<open>
  A young listing: no headline, revenue and net income both growing, and only three
  closes, fewer than the 20 the moving average needs.
\<close>

definition young_env :: providers where
  "young_env =
     \<lparr>requests_get = (\<lambda>url. Inr ''<html></html>''),
      h3_texts = (\<lambda>html. Inr []),
      financials = (\<lambda>tkr. Inr aapl_financials),
      download = (\<lambda>tkr. Inr [(''Close'', [Num 10, Num 11, Num 12])]),
      rolling_mean_f64 = exact_mean\<rparr>"

text \<open>A statement without the net income row, and one with a single period.\<close>

definition partial_env :: providers where
  "partial_env =
     \<lparr>requests_get = (\<lambda>url. Inr ''<html></html>''),
      h3_texts = (\<lambda>html. Inr []),
      financials = (\<lambda>tkr. if tkr = ''ONE'' then Inr [(''Total Revenue'', [Num 5]), (''Net Income'', [Num 1])]
                          else Inr [(''Total Revenue'', [Num 400, Num 380])]),
      download = (\<lambda>tkr. Inr [(''Open'', [Num 10, Num 11, Num 12])]),
      rolling_mean_f64 = exact_mean\<rparr>"

text \<open>Twenty closes at one price: the latest close equals the moving average.\<close>

definition flat_closes :: "cell list" where
  "flat_closes =
     [Num 50, Num 50, Num 50, Num 50, Num 50, Num 50, Num 50, Num 50, Num 50, Num 50,
      Num 50, Num 50, Num 50, Num 50, Num 50, Num 50, Num 50, Num 50, Num 50, Num 50]"

definition flat_env :: providers where
  "flat_env =
     \<lparr>requests_get = (\<lambda>url. Inr ''<html></html>''),
      h3_texts = (\<lambda>html. Inr []),
      financials = (\<lambda>tkr. Inr aapl_financials),
      download = (\<lambda>tkr. Inr [(''Close'', flat_closes)]),
      rolling_mean_f64 = exact_mean\<rparr>"

definition skewed_weights :: weights where
  "skewed_weights = \<lparr>w_news = 20, w_fund = 36, w_trend = 22\<rparr>"

section \<open>Properties of the classifier\<close>

lemmas label_defs = label_strong_bullish_def label_bullish_def label_neutral_def
  label_bearish_def label_strong_bearish_def

text \<open>
  Claim C1. \<open>classify\<close> is a total function of the final score that returns exactly one
  of five pairwise distinct labels, chosen by descending threshold: the label is
  STRONG BULLISH exactly when \<open>f \<ge> 60\<close>, BULLISH exactly when \<open>40 \<le> f < 60\<close>, NEUTRAL
  exactly when \<open>25 \<le> f < 40\<close>, BEARISH exactly when \<open>10 \<le> f < 25\<close> and STRONG BEARISH
  exactly when \<open>f < 10\<close>. The five bands cover the real line without gap or overlap and
  each boundary value belongs to the higher band. The last conjunct reads the label's
  name after the pictograph and the space that the program puts in front of it.
\<close>

theorem classify_bands:
  "(classify f = label_strong_bullish \<longleftrightarrow> 60 \<le> f) \<and>
   (classify f = label_bullish \<longleftrightarrow> 40 \<le> f \<and> f < 60) \<and>
   (classify f = label_neutral \<longleftrightarrow> 25 \<le> f \<and> f < 40) \<and>
   (classify f = label_bearish \<longleftrightarrow> 10 \<le> f \<and> f < 25) \<and>
   (classify f = label_strong_bearish \<longleftrightarrow> f < 10) \<and>
   classify f \<in> set labels \<and> distinct labels \<and>
   drop 5 (classify f) =
     (if 60 \<le> f then ''STRONG BULLISH'' else if 40 \<le> f then ''BULLISH''
      else if 25 \<le> f then ''NEUTRAL'' else if 10 \<le> f then ''BEARISH''
      else ''STRONG BEARISH'')"
  by (simp add: classify_def labels_def label_defs)

text \<open>The four boundary values, and a score just below the lowest one.\<close>

theorem classify_boundaries:
  "classify 60 = label_strong_bullish \<and> classify 40 = label_bullish \<and>
   classify 25 = label_neutral \<and> classify 10 = label_bearish \<and>
   classify (999 / 100) = label_strong_bearish"
  using classify_bands [of 60] classify_bands [of 40] classify_bands [of 25]
    classify_bands [of 10] classify_bands [of "999 / 100"]
  by simp

section \<open>Properties of the sentiment scorer\<close>

lemma contains_sublist: "contains t word \<longleftrightarrow> sublist word t"
  by (induction t) (auto simp: sublist_Cons_right)

lemma lower_char_idem: "lower_char (lower_char c) = lower_char c"
proof (cases "map_of (zip ascii_uppercase ascii_lowercase) c")
  case None
  then show ?thesis by (simp add: lower_char_def)
next
  case (Some l)
  then have "l \<in> set ascii_lowercase"
    by (meson map_of_SomeD set_zip_rightD)
  then have "l \<notin> set ascii_uppercase"
    by (auto simp: ascii_uppercase_def ascii_lowercase_def)
  then have "map_of (zip ascii_uppercase ascii_lowercase) l = None"
    by (simp add: map_of_zip_is_None ascii_uppercase_def ascii_lowercase_def)
  with Some show ?thesis by (simp add: lower_char_def)
qed

text \<open>A byte that is not a capital letter is not changed, and is not the image of another byte.\<close>

lemma lower_char_fixed: "c \<notin> set ascii_uppercase \<Longrightarrow> lower_char c = c"
  by (simp add: lower_char_def map_of_zip_is_None [THEN iffD2] ascii_uppercase_def
      ascii_lowercase_def)

lemma lower_char_range: "lower_char c = c \<or> lower_char c \<in> set ascii_lowercase"
proof (cases "map_of (zip ascii_uppercase ascii_lowercase) c")
  case None
  then show ?thesis by (simp add: lower_char_def)
next
  case (Some l)
  then have "l \<in> set ascii_lowercase" by (meson map_of_SomeD set_zip_rightD)
  with Some show ?thesis by (simp add: lower_char_def)
qed

lemma lower_char_eq_iff:
  "b \<notin> set ascii_uppercase \<Longrightarrow> b \<notin> set ascii_lowercase \<Longrightarrow> lower_char c = b \<longleftrightarrow> c = b"
  using lower_char_range [of c] lower_char_fixed [of b] by auto


text \<open>
  A run of bytes that are neither ASCII letters nor the first byte of one of the two
  special characters stands in the lower-cased text exactly where it stands in the text.
\<close>

lemma prefix_lower_inert:
  "set m \<inter> (set ascii_uppercase \<union> set ascii_lowercase \<union> {CHR 0xE2, CHR 0xC4}) = {} \<Longrightarrow>
   prefix m (lower cs) \<longleftrightarrow> prefix m cs"
proof (induction m arbitrary: cs)
  case Nil
  then show ?case by simp
next
  case (Cons b m)
  then have b: "b \<notin> set ascii_uppercase" "b \<notin> set ascii_lowercase" "b \<noteq> CHR 0xE2"
    "b \<noteq> CHR 0xC4"
    and m: "set m \<inter> (set ascii_uppercase \<union> set ascii_lowercase \<union> {CHR 0xE2, CHR 0xC4}) = {}"
    by auto
  have k: "b \<noteq> CHR ''k''" "b \<noteq> CHR ''i''" using b(2) by (auto simp: ascii_lowercase_def)
  show ?case
  proof (cases cs)
    case Nil
    then show ?thesis by simp
  next
    case (Cons c cs')
    show ?thesis
      using Cons.IH [OF m, of cs'] b(3,4) k lower_char_eq_iff [OF b(1,2), of c]
      by (auto simp: Cons kelvin_sign_def capital_i_dot_def)
  qed
qed

lemma prefix_map_lower_char:
  "set m \<inter> (set ascii_uppercase \<union> set ascii_lowercase) = {} \<Longrightarrow>
   prefix m (map lower_char cs) \<longleftrightarrow> prefix m cs"
proof (induction m arbitrary: cs)
  case Nil
  then show ?case by simp
next
  case (Cons b m)
  then have b: "b \<notin> set ascii_uppercase" "b \<notin> set ascii_lowercase"
    and m: "set m \<inter> (set ascii_uppercase \<union> set ascii_lowercase) = {}"
    by auto
  show ?case
  proof (cases cs)
    case Nil
    then show ?thesis by simp
  next
    case (Cons c cs')
    show ?thesis
      using Cons.IH [OF m, of cs'] lower_char_eq_iff [OF b, of c] by (auto simp: Cons)
  qed
qed

lemma prefix_lower_tails:
  "prefix [CHR 0x84, CHR 0xAA] (lower cs) \<longleftrightarrow> prefix [CHR 0x84, CHR 0xAA] cs"
  "prefix [CHR 0xB0] (lower cs) \<longleftrightarrow> prefix [CHR 0xB0] cs"
  by (rule prefix_lower_inert; simp add: ascii_uppercase_def ascii_lowercase_def)+

lemma lower_char_heads:
  "lower_char c = CHR 0xE2 \<longleftrightarrow> c = CHR 0xE2" "lower_char c = CHR 0xC4 \<longleftrightarrow> c = CHR 0xC4"
  "CHR 0xE2 = lower_char c \<longleftrightarrow> c = CHR 0xE2" "CHR 0xC4 = lower_char c \<longleftrightarrow> c = CHR 0xC4"
  using lower_char_eq_iff [of "CHR 0xE2" c] lower_char_eq_iff [of "CHR 0xC4" c]
  by (auto simp: ascii_uppercase_def ascii_lowercase_def)

lemma lower_char_special:
  "lower_char (CHR ''k'') = CHR ''k''" "lower_char (CHR ''i'') = CHR ''i''"
  "lower_char (CHR 0xCC) = CHR 0xCC" "lower_char (CHR 0x87) = CHR 0x87"
  by (simp_all add: lower_char_def ascii_uppercase_def ascii_lowercase_def)

lemma prefix_special_lower:
  "prefix kelvin_sign (lower_char c # lower cs) \<longleftrightarrow> prefix kelvin_sign (c # cs)"
  "prefix capital_i_dot (lower_char c # lower cs) \<longleftrightarrow> prefix capital_i_dot (c # cs)"
  using prefix_lower_tails [of cs]
  by (auto simp: kelvin_sign_def capital_i_dot_def lower_char_heads)

lemma lower_idem: "lower (lower t) = lower t"
proof (induction t rule: lower.induct)
  case 1
  then show ?case by simp
next
  case (2 c cs)
  show ?case
  proof (cases "prefix kelvin_sign (c # cs)")
    case True
    have "lower (c # cs) = CHR ''k'' # lower (drop 2 cs)" using True by simp
    moreover have "lower (CHR ''k'' # lower (drop 2 cs)) = CHR ''k'' # lower (lower (drop 2 cs))"
      by (simp add: lower_char_special kelvin_sign_def capital_i_dot_def)
    ultimately show ?thesis using 2(1) [OF True] by simp
  next
    case nk: False
    show ?thesis
    proof (cases "prefix capital_i_dot (c # cs)")
      case True
      have "lower (c # cs) = CHR ''i'' # combining_dot @ lower (drop 1 cs)"
        using nk True by simp
      moreover have "lower (CHR ''i'' # combining_dot @ lower (drop 1 cs)) =
          CHR ''i'' # combining_dot @ lower (lower (drop 1 cs))"
        by (simp add: lower_char_special kelvin_sign_def capital_i_dot_def combining_dot_def)
      ultimately show ?thesis using 2(2) [OF nk True] by simp
    next
      case False
      with nk 2(3) show ?thesis
        by (simp add: prefix_special_lower lower_char_idem)
    qed
  qed
qed

lemma prefix_special_map:
  "prefix kelvin_sign (map lower_char cs) \<longleftrightarrow> prefix kelvin_sign cs"
  "prefix capital_i_dot (map lower_char cs) \<longleftrightarrow> prefix capital_i_dot cs"
  by (rule prefix_map_lower_char;
      simp add: kelvin_sign_def capital_i_dot_def ascii_uppercase_def ascii_lowercase_def)+

lemma lower_map_lower_char: "lower (map lower_char t) = lower t"
proof (induction t rule: lower.induct)
  case 1
  then show ?case by simp
next
  case (2 c cs)
  have p: "prefix kelvin_sign (lower_char c # map lower_char cs) \<longleftrightarrow> prefix kelvin_sign (c # cs)"
    "prefix capital_i_dot (lower_char c # map lower_char cs) \<longleftrightarrow> prefix capital_i_dot (c # cs)"
    using prefix_special_map [of "c # cs"] by simp_all
  show ?case
  proof (cases "prefix kelvin_sign (c # cs)")
    case True
    with 2(1) p show ?thesis by (simp add: drop_map)
  next
    case nk: False
    show ?thesis
    proof (cases "prefix capital_i_dot (c # cs)")
      case True
      with nk 2(2) p show ?thesis by (simp add: drop_map)
    next
      case False
      with nk 2(3) p show ?thesis by (simp add: lower_char_idem)
    qed
  qed
qed

lemma lower_ascii_case: "map lower_char s = map lower_char t \<Longrightarrow> lower s = lower t"
  by (metis lower_map_lower_char)

lemmas lower_eval = lower_char_def ascii_uppercase_def ascii_lowercase_def kelvin_sign_def
  capital_i_dot_def combining_dot_def

lemma sum_of_bool_card:
  "distinct xs \<Longrightarrow> (\<Sum>x\<leftarrow>xs. of_bool (P x)) = int (card {x \<in> set xs. P x})"
proof (induction xs)
  case Nil
  then show ?case by simp
next
  case (Cons a xs)
  have fin: "finite {x \<in> set xs. P x}" by simp
  have notin: "a \<notin> {x \<in> set xs. P x}" using Cons.prems by simp
  show ?case
  proof (cases "P a")
    case True
    then have "{x \<in> set (a # xs). P x} = insert a {x \<in> set xs. P x}" by auto
    then show ?thesis using Cons True fin notin by simp
  next
    case False
    then have "{x \<in> set (a # xs). P x} = {x \<in> set xs. P x}" by auto
    then show ?thesis using Cons False by simp
  qed
qed

lemma words_distinct: "distinct positive_words" "distinct negative_words"
  by (simp_all add: positive_words_def negative_words_def)

lemmas sentiment_eval = sentiment_score_def lower_eval positive_words_def negative_words_def

text \<open>
  Claim C3. For every string \<open>t\<close>, \<open>sentiment_score t\<close> is the number of positive terms
  that occur in the lower-cased \<open>t\<close> as a contiguous substring minus the number of
  negative terms that do (a term counts once however often it occurs), over the two
  fixed lists of seven terms. The function is total. It does not distinguish \<open>t\<close> from its
  lower-cased form, and it gives two texts that differ only in the case of their ASCII
  letters the same score: lower-casing turns A to Z into a to z, leaves the other ASCII
  characters alone, turns the Kelvin sign into \<open>k\<close> and the dotted capital I into \<open>i\<close> with
  a combining dot. "Strong Growth" and "strong growth" score the same, and the empty
  string scores 0.
\<close>

theorem sentiment_score_spec:
  "sentiment_score t =
     int (card {w \<in> set positive_words. sublist w (lower t)})
     - int (card {w \<in> set negative_words. sublist w (lower t)}) \<and>
   positive_words =
     [''beats'', ''soars'', ''growth'', ''jump'', ''rises'', ''strong'', ''profit''] \<and>
   negative_words = [''falls'', ''misses'', ''drop'', ''weak'', ''loss'', ''cuts'', ''bad''] \<and>
   sentiment_score (lower t) = sentiment_score t \<and>
   (map lower_char s = map lower_char t \<longrightarrow> sentiment_score s = sentiment_score t) \<and>
   map lower_char ''ABCDEFGHIJKLMNOPQRSTUVWXYZ'' = ''abcdefghijklmnopqrstuvwxyz'' \<and>
   lower ''ABCDEFGHIJKLMNOPQRSTUVWXYZ'' = ''abcdefghijklmnopqrstuvwxyz'' \<and>
   lower ''abcdefghijklmnopqrstuvwxyz 0123456789 .,:;!?-+%$()'' =
     ''abcdefghijklmnopqrstuvwxyz 0123456789 .,:;!?-+%$()'' \<and>
   lower [CHR 0xE2, CHR 0x84, CHR 0xAA] = ''k'' \<and>
   lower [CHR 0xC4, CHR 0xB0] = [CHR ''i'', CHR 0xCC, CHR 0x87] \<and>
   sentiment_score ''Strong Growth'' = sentiment_score ''strong growth'' \<and>
   sentiment_score [] = 0"
proof -
  have a: "sentiment_score t =
     int (card {w \<in> set positive_words. sublist w (lower t)})
     - int (card {w \<in> set negative_words. sublist w (lower t)})"
    by (simp add: sentiment_score_def Let_def contains_sublist sum_of_bool_card
        words_distinct)
  have b: "sentiment_score (lower t) = sentiment_score t"
    by (simp add: sentiment_score_def Let_def lower_idem)
  have c: "sentiment_score s = sentiment_score t" if "map lower_char s = map lower_char t"
    using lower_ascii_case [OF that] by (simp add: sentiment_score_def Let_def)
  have d: "map lower_char ''ABCDEFGHIJKLMNOPQRSTUVWXYZ'' = ''abcdefghijklmnopqrstuvwxyz''"
    "lower ''ABCDEFGHIJKLMNOPQRSTUVWXYZ'' = ''abcdefghijklmnopqrstuvwxyz''"
    "lower ''abcdefghijklmnopqrstuvwxyz 0123456789 .,:;!?-+%$()'' =
       ''abcdefghijklmnopqrstuvwxyz 0123456789 .,:;!?-+%$()''"
    "lower [CHR 0xE2, CHR 0x84, CHR 0xAA] = ''k''"
    "lower [CHR 0xC4, CHR 0xB0] = [CHR ''i'', CHR 0xCC, CHR 0x87]"
    by (simp_all add: lower_eval)
  have e: "sentiment_score ''Strong Growth'' = sentiment_score ''strong growth''"
    "sentiment_score [] = 0"
    by (simp_all add: sentiment_eval)
  have f: "positive_words =
     [''beats'', ''soars'', ''growth'', ''jump'', ''rises'', ''strong'', ''profit'']"
    "negative_words = [''falls'', ''misses'', ''drop'', ''weak'', ''loss'', ''cuts'', ''bad'']"
    by (simp_all add: positive_words_def negative_words_def)
  show ?thesis
    by (intro conjI impI a b c d e f)
qed

text \<open>
  Concrete scores: two positive terms in either case, a term in capitals, the headline of
  the end-to-end scenario, a term inside a longer word, a repeated term, "WEA" followed
  by the Kelvin sign (which lower-cases to "weak"), and "PROF", the dotted capital I, "T"
  (which does not lower-case to "profit").
\<close>

theorem sentiment_score_examples:
  "sentiment_score ''Strong Growth'' = 2 \<and> sentiment_score ''strong growth'' = 2 \<and>
   sentiment_score ''BEATS'' = 1 \<and> sentiment_score ''beats'' = 1 \<and>
   sentiment_score ''AAPL beats estimates'' = 1 \<and>
   sentiment_score ''Weakness: profit falls'' = - 1 \<and>
   sentiment_score ''growth, growth, growth'' = 1 \<and>
   sentiment_score (''WEA'' @ [CHR 0xE2, CHR 0x84, CHR 0xAA] @ '' demand'') = - 1 \<and>
   sentiment_score (''PROF'' @ [CHR 0xC4, CHR 0xB0] @ ''T'') = 0"
proof -
  have "map lower_char ''BEATS'' = map lower_char ''beats''"
    by (simp add: lower_eval)
  then have "sentiment_score ''BEATS'' = sentiment_score ''beats''"
    using sentiment_score_spec [where s = "''BEATS''" and t = "''beats''"] by blast
  moreover have "sentiment_score ''beats'' = 1" by (simp add: sentiment_eval)
  ultimately show ?thesis by (simp add: sentiment_eval)
qed

section \<open>Properties of double-precision rounding\<close>

lemma two_powr_int: "(2::real) powr real_of_int k = 2 powi k"
  by (simp add: powr_real_of_int')

lemma expo_bounds:
  assumes "x \<noteq> 0"
  shows "2 powi (expo x) \<le> \<bar>x\<bar>" and "\<bar>x\<bar> < 2 powi (expo x + 1)"
proof -
  have pos: "0 < \<bar>x\<bar>" using assms by simp
  have "2 powr real_of_int (expo x) \<le> \<bar>x\<bar> \<and> \<bar>x\<bar> < 2 powr real_of_int (expo x + 1)"
    using floor_log_eq_powr_iff [OF pos, of 2 "expo x"] by (simp add: expo_def)
  then show "2 powi (expo x) \<le> \<bar>x\<bar>" and "\<bar>x\<bar> < 2 powi (expo x + 1)"
    by (simp_all only: two_powr_int)
qed

lemma expo_eqI:
  assumes "2 powi e \<le> \<bar>x\<bar>" and "\<bar>x\<bar> < 2 powi (e + 1)"
  shows "expo x = e"
proof -
  have "(0::real) < 2 powi e" by simp
  then have pos: "0 < \<bar>x\<bar>" using assms(1) by linarith
  have "2 powr real_of_int e \<le> \<bar>x\<bar> \<and> \<bar>x\<bar> < 2 powr real_of_int (e + 1)"
    using assms by (simp only: two_powr_int)
  then show ?thesis
    unfolding expo_def using floor_log_eq_powr_iff [OF pos, of 2 e] by simp
qed

lemma round_half_even_of_int: "round_half_even (of_int k) = k"
  by (simp add: round_half_even_def)

lemma round_half_even_ge: "of_int a \<le> x \<Longrightarrow> a \<le> round_half_even x"
proof -
  assume "of_int a \<le> x"
  then have "a \<le> \<lfloor>x\<rfloor>" by (simp add: le_floor_iff)
  then show ?thesis by (simp add: round_half_even_def Let_def)
qed

lemma round_half_even_le:
  assumes "x \<le> of_int b"
  shows "round_half_even x \<le> b"
proof (cases "x = of_int \<lfloor>x\<rfloor>")
  case True
  then have "round_half_even x = \<lfloor>x\<rfloor>" by (metis round_half_even_of_int)
  then show ?thesis using assms by (simp add: floor_le_iff)
next
  case False
  then have "of_int \<lfloor>x\<rfloor> < x" by (metis of_int_floor_le order_less_le)
  then have "\<lfloor>x\<rfloor> < b" using assms by linarith
  then show ?thesis by (simp add: round_half_even_def Let_def)
qed

lemma b64_zero: "b64 0 = 0"
  by (simp add: b64_def)

lemma b64_double: "b64 (2 * x) = 2 * b64 x"
proof (cases "x = 0")
  case True
  then show ?thesis by (simp add: b64_zero)
next
  case False
  have "expo (2 * x) = expo x + 1"
  proof (rule expo_eqI)
    show "2 powi (expo x + 1) \<le> \<bar>2 * x\<bar>"
      using expo_bounds(1) [OF False] by (simp add: power_int_add abs_mult)
    show "\<bar>2 * x\<bar> < 2 powi (expo x + 1 + 1)"
      using expo_bounds(2) [OF False] by (simp add: power_int_add abs_mult)
  qed
  then show ?thesis
    by (simp add: b64_def Let_def power_int_add power_int_diff abs_mult sgn_mult mult.commute)
qed

lemma b64_idem: "b64 (b64 x) = b64 x"
proof (cases "x = 0")
  case True
  then show ?thesis by (simp add: b64_zero)
next
  case False
  define e where "e = expo x"
  define u :: real where "u = 2 powi (e - 52)"
  define m where "m = round_half_even (\<bar>x\<bar> / u)"
  have u_pos: "0 < u" by (simp add: u_def)
  have ue: "2 powi e = 2 ^ 52 * u" by (simp add: u_def power_int_diff)
  have ue1: "2 powi (e + 1) = 2 ^ 53 * u" by (simp add: u_def power_int_diff power_int_add)
  have lo: "2 ^ 52 \<le> \<bar>x\<bar> / u"
    using expo_bounds(1) [OF False] u_pos by (simp add: ue e_def [symmetric] pos_le_divide_eq)
  have hi: "\<bar>x\<bar> / u \<le> 2 ^ 53"
    using expo_bounds(2) [OF False] u_pos by (simp add: ue1 e_def [symmetric] pos_divide_le_eq)
  have m_lo: "2 ^ 52 \<le> m"
    using round_half_even_ge [of "2 ^ 52" "\<bar>x\<bar> / u"] lo by (simp add: m_def)
  have m_hi: "m \<le> 2 ^ 53"
    using round_half_even_le [of "\<bar>x\<bar> / u" "2 ^ 53"] hi by (simp add: m_def)
  have y: "b64 x = sgn x * (of_int m * u)"
    by (simp add: b64_def Let_def e_def u_def m_def)
  have ay: "\<bar>b64 x\<bar> = of_int m * u"
    using False m_lo u_pos by (simp add: y abs_mult abs_sgn_eq)
  have sy: "sgn (b64 x) = sgn x"
    using False m_lo u_pos by (simp add: y sgn_mult)
  show ?thesis
  proof (cases "m = 2 ^ 53")
    case True
    have ue2: "2 powi (e + 1 + 1) = 2 ^ 54 * u"
      by (simp add: u_def power_int_diff power_int_add)
    have "expo (b64 x) = e + 1"
    proof (rule expo_eqI)
      show "2 powi (e + 1) \<le> \<bar>b64 x\<bar>" by (simp add: ay True ue1)
      show "\<bar>b64 x\<bar> < 2 powi (e + 1 + 1)" unfolding ue2 ay True using u_pos by simp
    qed
    then have "b64 (b64 x) = sgn x * (of_int (round_half_even (of_int (2 ^ 52))) * (2 * u))"
      by (simp add: b64_def [of "b64 x"] Let_def sy ay True u_def power_int_diff power_int_add)
    then show ?thesis by (simp only: round_half_even_of_int) (simp add: y True)
  next
    case False
    then have "m < 2 ^ 53" using m_hi by simp
    then have "real_of_int m < 2 ^ 53" by (metis of_int_less_iff of_int_numeral of_int_power)
    moreover have "(2::real) ^ 52 \<le> real_of_int m"
      using m_lo by (metis of_int_le_iff of_int_numeral of_int_power)
    ultimately have "expo (b64 x) = e"
      using u_pos by (intro expo_eqI) (simp_all add: ay ue ue1)
    then have "b64 (b64 x) = sgn x * (of_int (round_half_even (of_int m)) * u)"
      using u_pos by (simp add: b64_def [of "b64 x"] Let_def sy ay u_def)
    then show ?thesis by (simp only: round_half_even_of_int) (simp add: y)
  qed
qed

lemma b64_eval:
  assumes "2 powi e \<le> \<bar>x\<bar>" and "\<bar>x\<bar> < 2 powi (e + 1)"
  shows "b64 x = sgn x * (of_int (round_half_even (\<bar>x\<bar> / 2 powi (e - 52))) * 2 powi (e - 52))"
  using expo_eqI [OF assms] by (simp add: b64_def Let_def)


lemma fadd_0_left: "fadd 0 (b64 x) = b64 x"
  by (simp add: fadd_def b64_idem)

lemma fadd_0_right: "fadd (b64 x) 0 = b64 x"
  by (simp add: fadd_def b64_idem)

lemma fdiv_0: "fdiv 0 y = 0"
  by (simp add: fdiv_def b64_zero)

lemma fmul_0_right: "fmul x 0 = 0"
  by (simp add: fmul_def b64_zero)

lemma fdiv_double: "fdiv (2 * x) y = 2 * fdiv x y"
  using b64_double [of "x / y"] by (simp add: fdiv_def)

lemma fmul_double: "fmul x (2 * y) = 2 * fmul x y"
  using b64_double [of "x * y"] by (simp add: fmul_def mult.left_commute)

subsection \<open>The doubles of the examples\<close>

text \<open>The doubles nearest to 0.4, 0.72 and 0.44.\<close>

lemma fdiv_20_50: "fdiv 20 50 = 3602879701896397 / 2 ^ 53"
  using b64_eval [of "- 2" "20 / 50"] by (simp add: fdiv_def round_half_even_def)

lemma fdiv_36_50: "fdiv 36 50 = 3242591731706757 / 2 ^ 52"
  using b64_eval [of "- 1" "36 / 50"] by (simp add: fdiv_def round_half_even_def)

lemma fdiv_22_50: "fdiv 22 50 = 7926335344172073 / 2 ^ 54"
  using b64_eval [of "- 2" "22 / 50"] by (simp add: fdiv_def round_half_even_def)

lemma fmul_5_04: "fmul 5 (3602879701896397 / 2 ^ 53) = 2"
  using b64_eval [of 1 "5 * (3602879701896397 / 2 ^ 53)"]
  by (simp add: fmul_def round_half_even_def)

lemma fmul_20_04: "fmul 20 (3602879701896397 / 2 ^ 53) = 8"
  using b64_eval [of 3 "20 * (3602879701896397 / 2 ^ 53)"]
  by (simp add: fmul_def round_half_even_def)

lemma fmul_10_04: "fmul 10 (3602879701896397 / 2 ^ 53) = 4"
  using b64_eval [of 2 "10 * (3602879701896397 / 2 ^ 53)"]
  by (simp add: fmul_def round_half_even_def)

lemma fadd_2_8: "fadd 2 8 = 10"
  using b64_eval [of 3 "2 + 8"] by (simp add: fadd_def round_half_even_def)

lemma fadd_10_4: "fadd 10 4 = 14"
  using b64_eval [of 3 "10 + 4"] by (simp add: fadd_def round_half_even_def)

lemma py_round_14: "py_round 14 2 = 14"
  using b64_eval [of 3 "14"] by (simp add: py_round_def round_half_even_def)

lemma fmul_0: "fmul 0 x = 0"
  by (simp add: fmul_def b64_zero)

lemma fmul_20_072: "fmul 20 (3242591731706757 / 2 ^ 52) = 2026619832316723 / 2 ^ 47"
  using b64_eval [of 3 "20 * (3242591731706757 / 2 ^ 52)"]
  by (simp add: fmul_def round_half_even_def)

lemma fmul_m10_044: "fmul (- 10) (7926335344172073 / 2 ^ 54) = - (2476979795053773 / 2 ^ 49)"
  using b64_eval [of 2 "- 10 * (7926335344172073 / 2 ^ 54)"]
  by (simp add: fmul_def round_half_even_def)

lemma fadd_0_b: "fadd 0 (2026619832316723 / 2 ^ 47) = 2026619832316723 / 2 ^ 47"
  using b64_eval [of 3 "2026619832316723 / 2 ^ 47"]
  by (simp add: fadd_def round_half_even_def)

lemma fadd_b_c:
  "fadd (2026619832316723 / 2 ^ 47) (- (2476979795053773 / 2 ^ 49)) = 5629499534213119 / 2 ^ 49"
  using b64_eval [of 3 "2026619832316723 / 2 ^ 47 + - (2476979795053773 / 2 ^ 49)"]
  by (simp add: fadd_def round_half_even_def)

lemma py_round_final: "py_round (5629499534213119 / 2 ^ 49) 2 = 10"
  using b64_eval [of 3 "10"] by (simp add: py_round_def round_half_even_def)

lemma fadd_8_4: "fadd 8 4 = 12"
  using b64_eval [of 3 "8 + 4"] by (simp add: fadd_def round_half_even_def)

lemma fadd_2_4: "fadd 2 4 = 6"
  using b64_eval [of 2 "2 + 4"] by (simp add: fadd_def round_half_even_def)

lemma news_term_default: "fmul 5 (fdiv 20 50) = 2"
  unfolding fdiv_20_50 by (rule fmul_5_04)

lemma fund_term_default: "fmul 20 (fdiv 20 50) = 8"
  unfolding fdiv_20_50 by (rule fmul_20_04)

lemma trend_term_default: "fmul 10 (fdiv 20 50) = 4"
  unfolding fdiv_20_50 by (rule fmul_10_04)

lemmas default_terms = news_term_default fund_term_default trend_term_default
  fadd_2_8 fadd_10_4 py_round_14

lemma final_default_example: "final 5 20 10 default_weights = 14"
  by (simp add: final_def default_weights_def default_terms)

lemma skewed_sum:
  "fadd (fadd (fmul 0 (fdiv 20 50)) (fmul 20 (fdiv 36 50))) (fmul (- 10) (fdiv 22 50)) =
     5629499534213119 / 2 ^ 49"
  unfolding fmul_0 fdiv_36_50 fdiv_22_50 fmul_20_072 fmul_m10_044 fadd_0_b
  by (rule fadd_b_c)

lemma final_skewed_example: "final 0 20 (- 10) skewed_weights = 5629499534213119 / 2 ^ 49"
proof -
  have "final 0 20 (- 10) skewed_weights =
    fadd (fadd (fmul 0 (fdiv 20 50)) (fmul 20 (fdiv 36 50))) (fmul (- 10) (fdiv 22 50))"
    by (simp add: final_def skewed_weights_def)
  then show ?thesis by (simp only: skewed_sum)
qed

section \<open>Properties of the scorers\<close>

lemmas env_defs = aapl_env_def offline_env_def empty_env_def young_env_def partial_env_def
  flat_env_def flat_closes_def aapl_financials_def aapl_closes_def

lemma fetch_news_length: "length (fetch_news env tkr) \<le> 5"
  by (simp add: fetch_news_def fetch_news_try_def split: sum.splits)


lemma take2: "take 2 (a # b # xs) = [a, b]"
  by (simp add: numeral_2_eq_2)



lemma numbers_length: "length (numbers win) \<le> length win"
  unfolding numbers_def by (induction win) (auto split: cell.splits)

lemma numbers_all: "list_all (\<lambda>c. c \<noteq> NaN) win \<Longrightarrow> length (numbers win) = length win"
  unfolding numbers_def by (induction win) (auto split: cell.splits)

lemma numbers_short: "\<not> list_all (\<lambda>c. c \<noteq> NaN) win \<Longrightarrow> length (numbers win) < length win"
proof (induction win)
  case Nil
  then show ?case by simp
next
  case (Cons c win)
  show ?case
  proof (cases c)
    case (Num x)
    with Cons show ?thesis by (simp add: numbers_def)
  next
    case NaN
    with numbers_length [of win] show ?thesis by (simp add: numbers_def)
  qed
qed

lemma window_full_iff:
  "length (numbers (drop (length xs - n) xs)) < n \<longleftrightarrow>
   \<not> (n \<le> length xs \<and> list_all (\<lambda>c. c \<noteq> NaN) (drop (length xs - n) xs))"
proof (cases "n \<le> length xs")
  case True
  then have len: "length (drop (length xs - n) xs) = n" by simp
  show ?thesis
  proof (cases "list_all (\<lambda>c. c \<noteq> NaN) (drop (length xs - n) xs)")
    case all: True
    with True len numbers_all [OF all] show ?thesis by simp
  next
    case False
    with True len numbers_short [OF False] show ?thesis by simp
  qed
next
  case False
  then have "length (drop (length xs - n) xs) < n" by simp
  with numbers_length [of "drop (length xs - n) xs"] False show ?thesis by simp
qed

lemma last_rolling_mean:
  assumes "xs \<noteq> []"
  shows "last (rolling_mean mf n xs) = sma_last mf n xs"
proof -
  from assms obtain k where k: "length xs = Suc k" by (cases xs) auto
  then have "[0..<length xs] = [0..<k] @ [k]" by simp
  then have "last (rolling_mean mf n xs) =
      (if length (numbers (drop (Suc k - n) (take (Suc k) xs))) < n then NaN
       else Num (mf n xs k))"
    by (simp add: rolling_mean_def)
  also have "\<dots> = (if length (numbers (drop (length xs - n) xs)) < n then NaN
       else Num (mf n xs (length xs - 1)))"
    using k by simp
  finally show ?thesis by (simp add: window_full_iff sma_last_def)
qed

lemma rolling_mean_Nil_iff: "rolling_mean mf n xs = [] \<longleftrightarrow> xs = []"
  by (simp add: rolling_mean_def)

lemma loc_nonempty:
  assumes "\<not> frame_empty fr" "loc fr label = Inr xs"
  shows "xs \<noteq> []"
proof -
  from assms(2) obtain s where s: "filter (\<lambda>s. fst s = label) fr = [s]" "snd s = xs"
    by (auto simp: loc_def split: list.splits)
  then have "s \<in> set (filter (\<lambda>s. fst s = label) fr)" by simp
  then have "s \<in> set fr" by simp
  with assms(1) s show ?thesis by (auto simp: frame_empty_def list_ex_iff)
qed

lemma trend_score_try_ok:
  assumes "download env tkr = Inr data" "\<not> frame_empty data" "loc data ''Close'' = Inr close"
  shows "trend_score_try env tkr =
    Inr (if gt (last close) (sma_last (rolling_mean_f64 env) 20 close) then (10, ''Uptrend'')
         else (- 10, ''Downtrend''))"
    and "iloc_last (rolling_mean (rolling_mean_f64 env) 20 close) =
      Inr (sma_last (rolling_mean_f64 env) 20 close)"
proof -
  have ne: "close \<noteq> []" using loc_nonempty assms(2,3) by blast
  then show "iloc_last (rolling_mean (rolling_mean_f64 env) 20 close) =
      Inr (sma_last (rolling_mean_f64 env) 20 close)"
    by (simp add: iloc_last_def rolling_mean_Nil_iff last_rolling_mean)
  with ne show "trend_score_try env tkr =
    Inr (if gt (last close) (sma_last (rolling_mean_f64 env) 20 close) then (10, ''Uptrend'')
         else (- 10, ''Downtrend''))"
    using assms by (simp add: trend_score_try_def iloc_last_def)
qed



text \<open>
  Claim C6. For a non-empty price series with fewer than 20 closes the rolling mean at
  the latest position is the missing value, the comparison with it is false, and the
  trend scorer returns (-10, "Downtrend") through its \<open>else\<close> branch: the body of the
  \<open>try\<close> block returns normally, no exception is raised and the "Trend error" default
  is not used.
\<close>

theorem trend_score_short_series:
  assumes "download env tkr = Inr data" and "\<not> frame_empty data"
    and "loc data ''Close'' = Inr close" and "length close < 20"
  shows "trend_score env tkr = (- 10, ''Downtrend'') \<and>
    trend_score_try env tkr = Inr (- 10, ''Downtrend'') \<and>
    iloc_last (rolling_mean (rolling_mean_f64 env) 20 close) = Inr NaN"
proof -
  have nan: "sma_last (rolling_mean_f64 env) 20 close = NaN"
    using assms(4) by (simp add: sma_last_def)
  have "gt (last close) NaN = False" by (cases "last close") simp_all
  with nan trend_score_try_ok [OF assms(1-3)] show ?thesis
    by (simp add: trend_score_def)
qed

text \<open>Three closes.\<close>

theorem trend_score_short_series_example:
  "trend_score young_env ''NEWCO'' = (- 10, ''Downtrend'') \<and>
   trend_score_try young_env ''NEWCO'' = Inr (- 10, ''Downtrend'') \<and>
   iloc_last (rolling_mean (rolling_mean_f64 young_env) 20 [Num 10, Num 11, Num 12]) = Inr NaN"
  using trend_score_short_series [of young_env "''NEWCO''"
      "[(''Close'', [Num 10, Num 11, Num 12])]" "[Num 10, Num 11, Num 12]"]
  by (simp add: env_defs frame_empty_def loc_def)

section \<open>Properties of the scan\<close>

lemma scan_loop_append:
  "scan_loop env w tickers results = results @ map (scan_ticker env w) tickers"
  by (induction tickers arbitrary: results) simp_all

lemma scan_map: "scan env w tickers = map (scan_ticker env w) tickers"
  by (simp add: scan_def scan_loop_append)

lemma ticker_scan_ticker: "ticker (scan_ticker env w tkr) = tkr"
  by (simp add: scan_ticker_def Let_def case_prod_beta)

lemma fundamental_score_error:
  "fundamental_score_try env tkr = Inl e \<Longrightarrow>
   fundamental_score env tkr = (0, ''Financial analysis error'')"
  by (simp add: fundamental_score_def)

lemma trend_score_error:
  "trend_score_try env tkr = Inl e \<Longrightarrow> trend_score env tkr = (0, ''Trend error'')"
  by (simp add: trend_score_def)

text \<open>
  Claim C7. Every data-fetching component maps each failure inside its \<open>try\<close> block to
  a fixed default and returns a plain value. The headline collector returns at most 5
  headlines, and the empty list when the request or the extraction fails. The
  fundamental scorer returns (0, "Financial analysis error") when its body raises: on a
  failed retrieval, on a missing row, and on a row with fewer than two periods. The
  trend scorer returns (0, "Trend error") when its body raises: on a failed retrieval and
  on a missing column of closes. The scan therefore yields one result per ticker for
  every list of tickers.
\<close>

theorem failures_degrade_to_defaults:
  "length (fetch_news env tkr) \<le> 5 \<and>
   (fetch_news_try env tkr = Inl e \<longrightarrow> fetch_news env tkr = []) \<and>
   (requests_get env (quote_url tkr) = Inl e \<longrightarrow> fetch_news env tkr = []) \<and>
   (requests_get env (quote_url tkr) = Inr html \<and> h3_texts env html = Inl e \<longrightarrow>
      fetch_news env tkr = []) \<and>
   (fundamental_score_try env tkr = Inl e \<longrightarrow>
      fundamental_score env tkr = (0, ''Financial analysis error'')) \<and>
   (financials env tkr = Inl e \<longrightarrow>
      fundamental_score env tkr = (0, ''Financial analysis error'')) \<and>
   (financials env tkr = Inr fin \<and> \<not> frame_empty fin \<and>
    (loc fin ''Total Revenue'' = Inl e \<or> loc fin ''Net Income'' = Inl e) \<longrightarrow>
      fundamental_score env tkr = (0, ''Financial analysis error'')) \<and>
   (financials env tkr = Inr fin \<and> \<not> frame_empty fin \<and>
    loc fin ''Total Revenue'' = Inr rv \<and> loc fin ''Net Income'' = Inr ni \<and>
    (length rv < 2 \<or> length ni < 2) \<longrightarrow>
      fundamental_score env tkr = (0, ''Financial analysis error'')) \<and>
   (trend_score_try env tkr = Inl e \<longrightarrow> trend_score env tkr = (0, ''Trend error'')) \<and>
   (download env tkr = Inl e \<longrightarrow> trend_score env tkr = (0, ''Trend error'')) \<and>
   (download env tkr = Inr data \<and> \<not> frame_empty data \<and> loc data ''Close'' = Inl e \<longrightarrow>
      trend_score env tkr = (0, ''Trend error'')) \<and>
   length (scan env w tickers) = length tickers \<and>
   map ticker (scan env w tickers) = tickers"
proof -
  have n1: "fetch_news env tkr = []" if "fetch_news_try env tkr = Inl e"
    using that by (simp add: fetch_news_def)
  have n2: "fetch_news env tkr = []" if "requests_get env (quote_url tkr) = Inl e"
    using that by (simp add: fetch_news_def fetch_news_try_def)
  have n3: "fetch_news env tkr = []"
    if "requests_get env (quote_url tkr) = Inr html" "h3_texts env html = Inl e"
    using that by (simp add: fetch_news_def fetch_news_try_def)
  have f1: "fundamental_score env tkr = (0, ''Financial analysis error'')"
    if "financials env tkr = Inl e"
    using that by (simp add: fundamental_score_def fundamental_score_try_def)
  have f2: "fundamental_score env tkr = (0, ''Financial analysis error'')"
    if "financials env tkr = Inr fin" "\<not> frame_empty fin"
      "loc fin ''Total Revenue'' = Inl e \<or> loc fin ''Net Income'' = Inl e"
    using that
    by (auto simp: fundamental_score_def fundamental_score_try_def split: sum.splits)
  have f3: "fundamental_score env tkr = (0, ''Financial analysis error'')"
    if "financials env tkr = Inr fin" "\<not> frame_empty fin"
      "loc fin ''Total Revenue'' = Inr rv" "loc fin ''Net Income'' = Inr ni"
      "length rv < 2 \<or> length ni < 2"
    using that
    by (auto simp: fundamental_score_def fundamental_score_try_def iloc_def Let_def
        split: sum.splits prod.splits)
  have t1: "trend_score env tkr = (0, ''Trend error'')" if "download env tkr = Inl e"
    using that by (simp add: trend_score_def trend_score_try_def)
  have t2: "trend_score env tkr = (0, ''Trend error'')"
    if "download env tkr = Inr data" "\<not> frame_empty data" "loc data ''Close'' = Inl e"
    using that by (simp add: trend_score_def trend_score_try_def)
  from n1 n2 n3 f1 f2 f3 t1 t2 fetch_news_length [of env tkr]
    fundamental_score_error [of env tkr e] trend_score_error [of env tkr e]
  show ?thesis
    by (simp add: scan_map ticker_scan_ticker comp_def)
qed

text \<open>
  All providers down; a statement without the net income row; a statement with a
  single period; a price frame without closes.
\<close>

theorem failures_degrade_examples:
  "fetch_news offline_env ''AAPL'' = [] \<and>
   fundamental_score offline_env ''AAPL'' = (0, ''Financial analysis error'') \<and>
   trend_score offline_env ''AAPL'' = (0, ''Trend error'') \<and>
   fundamental_score partial_env ''AAPL'' = (0, ''Financial analysis error'') \<and>
   fundamental_score partial_env ''ONE'' = (0, ''Financial analysis error'') \<and>
   trend_score partial_env ''AAPL'' = (0, ''Trend error'') \<and>
   map ticker (scan offline_env default_weights [''SPY'', ''QQQ'', ''SPY'']) =
     [''SPY'', ''QQQ'', ''SPY'']"
  using failures_degrade_to_defaults [of offline_env "''AAPL''" "ProviderError ''connection refused''"
        "[]" "[]" "[]" "[]" "[]" default_weights "[''SPY'', ''QQQ'', ''SPY'']"]
    failures_degrade_to_defaults [of partial_env "''AAPL''" "KeyError ''Net Income''"
        "[]" "[(''Total Revenue'', [Num 400, Num 380])]" "[]" "[]" "[]" default_weights "[]"]
    failures_degrade_to_defaults [of partial_env "''ONE''" "IndexError"
        "[]" "[(''Total Revenue'', [Num 5]), (''Net Income'', [Num 1])]" "[Num 5]" "[Num 1]"
        "[]" default_weights "[]"]
    failures_degrade_to_defaults [of partial_env "''AAPL''" "KeyError ''Close''"
        "[]" "[]" "[]" "[]" "[(''Open'', [Num 10, Num 11, Num 12])]" default_weights "[]"]
  by (simp add: env_defs frame_empty_def loc_def)

text \<open>
  Claim C8. One scan produces exactly one result per requested ticker, in the order of
  the input list: the tickers of the results are the input list itself, so none is
  omitted, duplicated or reordered, and the scan of the empty list is the empty list.
\<close>

theorem scan_one_result_per_ticker:
  "map ticker (scan env w tickers) = tickers \<and>
   length (scan env w tickers) = length tickers \<and>
   scan env w tickers = map (scan_ticker env w) tickers \<and>
   scan env w [] = []"
  by (simp add: scan_map ticker_scan_ticker comp_def)

text \<open>
  A list with a repeated ticker keeps both occurrences in place.
\<close>

theorem scan_one_result_per_ticker_example:
  "map ticker (scan offline_env default_weights [''XLK'', ''XLF'', ''XLK'']) =
     [''XLK'', ''XLF'', ''XLK''] \<and>
   scan aapl_env default_weights [] = []"
proof -
  have a: "map ticker (scan offline_env default_weights [''XLK'', ''XLF'', ''XLK'']) =
      [''XLK'', ''XLF'', ''XLK'']"
    using scan_one_result_per_ticker [of offline_env default_weights "[''XLK'', ''XLF'', ''XLK'']"]
    by (rule conjunct1)
  have b: "scan aapl_env default_weights [] = []"
    using scan_one_result_per_ticker [of aapl_env default_weights "[]"] by blast
  from a b show ?thesis by (rule conjI)
qed

lemma fetch_news_aapl: "fetch_news aapl_env ''AAPL'' = [''AAPL beats estimates'']"
  by (simp add: fetch_news_def fetch_news_try_def aapl_env_def)

lemma scan_ticker_fields:
  "news (scan_ticker env w tkr) = (\<Sum>n\<leftarrow>fetch_news env tkr. sentiment_score n) * 5"
  "fund (scan_ticker env w tkr) = fst (fundamental_score env tkr)"
  "fund_reason (scan_ticker env w tkr) = snd (fundamental_score env tkr)"
  "trend (scan_ticker env w tkr) = fst (trend_score env tkr)"
  "trend_reason (scan_ticker env w tkr) = snd (trend_score env tkr)"
  "final_score (scan_ticker env w tkr) =
     py_round (final ((\<Sum>n\<leftarrow>fetch_news env tkr. sentiment_score n) * 5)
       (fst (fundamental_score env tkr)) (fst (trend_score env tkr)) w) 2"
  "signal (scan_ticker env w tkr) =
     classify (final ((\<Sum>n\<leftarrow>fetch_news env tkr. sentiment_score n) * 5)
       (fst (fundamental_score env tkr)) (fst (trend_score env tkr)) w)"
  by (simp_all add: scan_ticker_def Let_def case_prod_beta py_round_int_def)

text \<open>
  Claim C2, as amended. For every ticker of a scan and every weight triple, the news
  score of the result is five times the sum of the sentiment scores of the headlines,
  the final score of the result is the weighted sum
  \<open>news * (w_news / 50) + fund * (w_fund / 50) + trend * (w_trend / 50)\<close>, computed in
  double precision from left to right and then rounded to 2 decimal places, and the
  signal of the result is the classifier applied to the weighted sum before that
  rounding. With the scores (5, 20, 10) and the weights (20, 20, 20) the weighted sum
  and the final score are 14.0 and the label is BEARISH.
\<close>

theorem scan_ticker_scores:
  "scan env w tickers = map (scan_ticker env w) tickers \<and>
   news (scan_ticker env w tkr) = (\<Sum>n\<leftarrow>fetch_news env tkr. sentiment_score n) * 5 \<and>
   fund (scan_ticker env w tkr) = fst (fundamental_score env tkr) \<and>
   trend (scan_ticker env w tkr) = fst (trend_score env tkr) \<and>
   final_score (scan_ticker env w tkr) =
     py_round
       (fadd
          (fadd (fmul (of_int (news (scan_ticker env w tkr))) (fdiv (of_int (w_news w)) 50))
                (fmul (of_int (fund (scan_ticker env w tkr))) (fdiv (of_int (w_fund w)) 50)))
          (fmul (of_int (trend (scan_ticker env w tkr))) (fdiv (of_int (w_trend w)) 50))) 2 \<and>
   signal (scan_ticker env w tkr) =
     classify
       (fadd
          (fadd (fmul (of_int (news (scan_ticker env w tkr))) (fdiv (of_int (w_news w)) 50))
                (fmul (of_int (fund (scan_ticker env w tkr))) (fdiv (of_int (w_fund w)) 50)))
          (fmul (of_int (trend (scan_ticker env w tkr))) (fdiv (of_int (w_trend w)) 50))) \<and>
   final 5 20 10 default_weights = 14 \<and> py_round 14 2 = 14 \<and> classify 14 = label_bearish"
  by (simp add: scan_map scan_ticker_fields final_def default_weights_def default_terms
      classify_def)

text \<open>
  The end-to-end scenario.
\<close>

theorem scan_aapl_example:
  "scan aapl_env default_weights [''AAPL''] =
     [\<lparr>ticker = ''AAPL'', news = 5, fund = 20,
       fund_reason = ''Revenue growing, Net income improving'',
       trend = 10, trend_reason = ''Uptrend'', final_score = 14, signal = label_bearish\<rparr>]"
proof -
  have s: "sentiment_score ''AAPL beats estimates'' = 1" by (simp add: sentiment_eval)
  have f: "fundamental_score aapl_env ''AAPL'' = (20, ''Revenue growing, Net income improving'')"
    by (simp add: fundamental_score_def fundamental_score_try_def env_defs frame_empty_def
        loc_def iloc_def take2)
  have t: "trend_score aapl_env ''AAPL'' = (10, ''Uptrend'')"
    using trend_score_try_ok(1) [of aapl_env "''AAPL''" "[(''Close'', aapl_closes)]" aapl_closes]
    by (simp add: trend_score_def env_defs frame_empty_def loc_def sma_last_def exact_mean_def
        the_num_def)
  have "scan_ticker aapl_env default_weights ''AAPL'' =
     \<lparr>ticker = ''AAPL'', news = 5, fund = 20,
       fund_reason = ''Revenue growing, Net income improving'',
       trend = 10, trend_reason = ''Uptrend'', final_score = 14, signal = label_bearish\<rparr>"
    using scan_ticker_scores [of aapl_env default_weights "[''AAPL'']" "''AAPL''"]
    by (simp add: scan_ticker_fields ticker_scan_ticker fetch_news_aapl s f t
        default_weights_def default_terms scan_result.equality)
  then show ?thesis by (simp add: scan_def)
qed

text \<open>
  The claim as first stated reads the signal as the classifier applied to the rounded
  final score. With no headline, fundamentals at +20, trend at -10 and the weights
  (20, 36, 22), the weighted sum is the double just below 10 (9.999999999999998): the
  final score is rounded to 10.0, whose label is BEARISH, while the signal, taken from
  the sum before rounding, is STRONG BEARISH.
\<close>

theorem signal_of_rounded_score_counterexample:
  "weights_ok skewed_weights \<and>
   final_score (scan_ticker young_env skewed_weights ''NEWCO'') = 10 \<and>
   classify (final_score (scan_ticker young_env skewed_weights ''NEWCO'')) = label_bearish \<and>
   signal (scan_ticker young_env skewed_weights ''NEWCO'') = label_strong_bearish \<and>
   signal (scan_ticker young_env skewed_weights ''NEWCO'')
     \<noteq> classify (final_score (scan_ticker young_env skewed_weights ''NEWCO''))"
proof -
  have n: "fetch_news young_env ''NEWCO'' = []"
    by (simp add: fetch_news_def fetch_news_try_def young_env_def)
  have f: "fundamental_score young_env ''NEWCO'' = (20, ''Revenue growing, Net income improving'')"
    by (simp add: fundamental_score_def fundamental_score_try_def env_defs frame_empty_def
        loc_def iloc_def take2)
  have t: "trend_score young_env ''NEWCO'' = (- 10, ''Downtrend'')"
    using trend_score_try_ok(1) [of young_env "''NEWCO''" "[(''Close'', [Num 10, Num 11, Num 12])]"
        "[Num 10, Num 11, Num 12]"]
    by (simp add: trend_score_def env_defs frame_empty_def loc_def sma_last_def)
  have "final_score (scan_ticker young_env skewed_weights ''NEWCO'') =
      py_round (final 0 20 (- 10) skewed_weights) 2"
    by (simp add: scan_ticker_fields n f t)
  then have fs: "final_score (scan_ticker young_env skewed_weights ''NEWCO'') = 10"
    by (simp only: final_skewed_example py_round_final)
  have "signal (scan_ticker young_env skewed_weights ''NEWCO'') =
      classify (final 0 20 (- 10) skewed_weights)"
    by (simp add: scan_ticker_fields n f t)
  also have "\<dots> = label_strong_bearish"
    unfolding final_skewed_example by (simp add: classify_def)
  finally have sg: "signal (scan_ticker young_env skewed_weights ''NEWCO'') = label_strong_bearish" .
  have "classify 10 = label_bearish" by (simp add: classify_def)
  with fs sg show ?thesis
    by (simp add: weights_ok_def skewed_weights_def label_defs)
qed

text \<open>
  Claim C10. A weight of 0 removes its component from the final score whatever the
  component's score is: the weighted sum is then the sum of the other two terms alone.
  Doubling the news weight doubles the news term exactly.
\<close>

theorem final_weight_effects:
  "final ns fs ts (w\<lparr>w_news := 0\<rparr>) =
     fadd (fmul (of_int fs) (fdiv (of_int (w_fund w)) 50))
          (fmul (of_int ts) (fdiv (of_int (w_trend w)) 50)) \<and>
   final ns fs ts (w\<lparr>w_fund := 0\<rparr>) =
     fadd (fmul (of_int ns) (fdiv (of_int (w_news w)) 50))
          (fmul (of_int ts) (fdiv (of_int (w_trend w)) 50)) \<and>
   final ns fs ts (w\<lparr>w_trend := 0\<rparr>) =
     fadd (fmul (of_int ns) (fdiv (of_int (w_news w)) 50))
          (fmul (of_int fs) (fdiv (of_int (w_fund w)) 50)) \<and>
   fmul (of_int ns) (fdiv (of_int (2 * w_news w)) 50) =
     2 * fmul (of_int ns) (fdiv (of_int (w_news w)) 50) \<and>
   final ns fs ts (w\<lparr>w_news := 2 * w_news w\<rparr>) =
     fadd
       (fadd (2 * fmul (of_int ns) (fdiv (of_int (w_news w)) 50))
             (fmul (of_int fs) (fdiv (of_int (w_fund w)) 50)))
       (fmul (of_int ts) (fdiv (of_int (w_trend w)) 50)) \<and>
   final_score (scan_ticker env (w\<lparr>w_news := 0\<rparr>) tkr) =
     py_round
       (fadd (fmul (of_int (fst (fundamental_score env tkr))) (fdiv (of_int (w_fund w)) 50))
             (fmul (of_int (fst (trend_score env tkr))) (fdiv (of_int (w_trend w)) 50))) 2"
proof -
  have d: "fmul (of_int ns) (fdiv (of_int (2 * w_news w)) 50) =
     2 * fmul (of_int ns) (fdiv (of_int (w_news w)) 50)"
    by (simp add: fdiv_double fmul_double)
  have z1: "fadd 0 (fmul a b) = fmul a b" for a b
    by (simp add: fmul_def fadd_0_left)
  have z2: "fadd (fmul a b) 0 = fmul a b" for a b
    by (simp add: fmul_def fadd_0_right)
  have z3: "fadd (fadd a b) 0 = fadd a b" for a b
    by (simp add: fadd_def [of a b] fadd_0_right)
  show ?thesis
    by (simp add: final_def scan_ticker_fields fdiv_0 fmul_0_right z1 z2 z3 d del: of_int_mult)
qed

text \<open>
  The scores (5, 20, 10) with one of the default weights set to 0, and the news weight doubled from 20 to 40.
\<close>

theorem final_weight_effects_example:
  "final 5 20 10 (default_weights\<lparr>w_news := 0\<rparr>) = 12 \<and>
   final 5 20 10 (default_weights\<lparr>w_fund := 0\<rparr>) = 6 \<and>
   final 5 20 10 (default_weights\<lparr>w_trend := 0\<rparr>) = 10 \<and>
   fmul 5 (fdiv 20 50) = 2 \<and> fmul 5 (fdiv 40 50) = 4"
  using final_weight_effects [of 5 20 10 default_weights aapl_env "''AAPL''"]
    final_weight_effects [of 5 20 10 "default_weights\<lparr>w_news := 20\<rparr>" aapl_env "''AAPL''"]
  by (simp add: default_weights_def default_terms fadd_8_4 fadd_2_4)

section \<open>Properties of the report\<close>

lemma generate_report_loop_eq:
  "generate_report_loop sf html results = html @ concat (map (report_block sf) results)"
  by (induction results arbitrary: html) (simp_all add: Let_def report_block_def)

lemma h3_headers_skip:
  "CHR ''<'' \<notin> set xs \<Longrightarrow> h3_headers (xs @ ys) = h3_headers ys"
  by (induction xs) auto

lemma digit_char_no_tag: "d < 10 \<Longrightarrow> digit_char d \<noteq> CHR ''<''"
proof -
  assume "d < 10"
  then have "d \<in> {0, 1, 2, 3, 4, 5, 6, 7, 8, 9}" by auto
  then show ?thesis by (auto simp: digit_char_def)
qed

lemma str_nat_no_tag: "CHR ''<'' \<notin> set (str_nat n)"
proof (induction n rule: str_nat.induct)
  case (1 n)
  show ?case
  proof (cases "n < 10")
    case True
    then show ?thesis using digit_char_no_tag [of n] by (simp add: str_nat.simps [of n])
  next
    case False
    then show ?thesis
      using 1 digit_char_no_tag [of "n mod 10"] by (simp add: str_nat.simps [of n])
  qed
qed

lemma str_int_no_tag: "CHR ''<'' \<notin> set (str_int n)"
  by (simp add: str_int_def str_nat_no_tag)

lemma takeWhile_header:
  "CHR ''<'' \<notin> set xs \<Longrightarrow> takeWhile (\<lambda>x. x \<noteq> CHR ''<'') (xs @ CHR ''<'' # ys) = xs"
  by (induction xs) auto

lemma h3_headers_block:
  assumes "markup_free sf r"
  shows "h3_headers (report_block sf r @ rest) = ticker r # h3_headers rest"
proof -
  from assms have t: "CHR ''<'' \<notin> set (ticker r)" and f: "CHR ''<'' \<notin> set (sf (final_score r))"
    and s: "CHR ''<'' \<notin> set (signal r)" and fr: "CHR ''<'' \<notin> set (fund_reason r)"
    and tr: "CHR ''<'' \<notin> set (trend_reason r)"
    by (simp_all add: markup_free_def)
  have e: "CHR ''<'' \<notin> set em_dash" by (simp add: em_dash_def)
  note skip = h3_headers_skip [OF t] h3_headers_skip [OF f] h3_headers_skip [OF s]
    h3_headers_skip [OF fr] h3_headers_skip [OF tr] h3_headers_skip [OF e]
    h3_headers_skip [OF str_int_no_tag]
  show ?thesis
    by (simp add: report_block_def takeWhile_header [OF t] skip)
qed

lemma h3_headers_blocks:
  "list_all (markup_free sf) results \<Longrightarrow>
   h3_headers (concat (map (report_block sf) results)) = map ticker results"
  by (induction results) (simp_all add: h3_headers_block)

lemma h3_headers_title: "h3_headers (report_title @ rest) = h3_headers rest"
  by (simp add: report_title_def)

text \<open>
  Claim C9. The report is the title followed by one block per result, in the order of
  the results; the block of a result holds its ticker header, its final score with its
  label, its news score, its fundamental score with reason, its trend score with reason
  and a separator. The report of the empty sequence is the title alone. When the
  rendered fields hold no markup of their own, reading the header elements back from
  the report gives the tickers of the results, one per result and in their order.
\<close>

theorem generate_report_blocks:
  "generate_report sf results = report_title @ concat (map (report_block sf) results) \<and>
   length (map (report_block sf) results) = length results \<and>
   generate_report sf [] = report_title \<and>
   (list_all (markup_free sf) results \<longrightarrow>
      h3_headers (generate_report sf results) = map ticker results)"
  by (simp add: generate_report_def generate_report_loop_eq h3_headers_title h3_headers_blocks)

text \<open>
  The rendered report of the end-to-end scenario, the headers of a report of two
  results, and the empty report. Only the scores 14.0 and 0.0 occur, and the float
  renderer of the example knows these two.
\<close>

theorem generate_report_example:
  "generate_report (\<lambda>x. if x = 14 then ''14.0'' else ''0.0'')
     [\<lparr>ticker = ''AAPL'', news = 5, fund = 20,
       fund_reason = ''Revenue growing, Net income improving'',
       trend = 10, trend_reason = ''Uptrend'', final_score = 14, signal = label_bearish\<rparr>] =
     ''<h1>Market Scanner Report</h1><h3>AAPL</h3><p>Score: 14.0 '' @ em_dash @ '' ''
       @ label_bearish @ ''</p><p>News Score: 5</p>''
       @ ''<p>Fundamentals: 20 (Revenue growing, Net income improving)</p>''
       @ ''<p>Trend: 10 (Uptrend)</p><hr>'' \<and>
   h3_headers
     (generate_report (\<lambda>x. if x = 14 then ''14.0'' else ''0.0'')
        [\<lparr>ticker = ''AAPL'', news = 5, fund = 20,
          fund_reason = ''Revenue growing, Net income improving'',
          trend = 10, trend_reason = ''Uptrend'', final_score = 14, signal = label_bearish\<rparr>,
         \<lparr>ticker = ''SPY'', news = 0, fund = 0, fund_reason = ''Financial analysis error'',
          trend = - 10, trend_reason = ''Downtrend'', final_score = 0,
          signal = label_strong_bearish\<rparr>]) = [''AAPL'', ''SPY''] \<and>
   generate_report (\<lambda>x. if x = 14 then ''14.0'' else ''0.0'') [] = report_title"
proof -
  let ?sf = "\<lambda>x::real. if x = 14 then ''14.0'' else ''0.0''"
  let ?r1 = "\<lparr>ticker = ''AAPL'', news = 5, fund = 20,
       fund_reason = ''Revenue growing, Net income improving'',
       trend = 10, trend_reason = ''Uptrend'', final_score = 14, signal = label_bearish\<rparr>"
  let ?r2 = "\<lparr>ticker = ''SPY'', news = 0, fund = 0, fund_reason = ''Financial analysis error'',
          trend = - 10, trend_reason = ''Downtrend'', final_score = 0,
          signal = label_strong_bearish\<rparr>"
  have mf: "list_all (markup_free ?sf) [?r1, ?r2]"
    by (simp add: markup_free_def label_defs)
  have a: "generate_report ?sf [?r1] = report_title @ concat (map (report_block ?sf) [?r1])"
    using generate_report_blocks [of ?sf "[?r1]"] by (rule conjunct1)
  have b: "h3_headers (generate_report ?sf [?r1, ?r2]) = map ticker [?r1, ?r2]"
    using generate_report_blocks [of ?sf "[?r1, ?r2]"] mf by blast
  have c: "generate_report ?sf [] = report_title"
    using generate_report_blocks [of ?sf "[]"] by blast
  have d: "str_int 5 = ''5''" "str_int 20 = ''20''" "str_int 10 = ''10''"
    by (simp_all add: str_int_def str_nat.simps digit_char_def)
  from a b c show ?thesis
    by (simp add: report_block_def report_title_def d)
qed

end
